theory Spec2Isabelle
  imports Complex_Main
begin

section \<open>Python values, exceptions and the library the simulator calls\<close>

text \<open>
  The simulator is \<^verbatim>\<open>src/simulation/quantum_channel.py\<close>. Its raw configuration is a
  \<^verbatim>\<open>Dict[str, Any]\<close>: nested dictionaries whose leaves are arbitrary Python values.
  A float field of the configuration is the real number that the float denotes. The
  tolerance of \<^verbatim>\<open>find_delay\<close> is computed as the code computes it, in binary64 with
  every product rounded to nearest (section "Binary64 arithmetic"); the non-finite values
  that numpy's division produces are modelled explicitly by \<open>np_float\<close>. The exponentials
  of the channel model and the quotients of the statistics are taken over the reals. What
  only the machine limits cause is outside the model: the OverflowError of
  \<^verbatim>\<open>10 ** x\<close> and of the conversion of an integer beyond the float range, the
  wrap-around of 64-bit integers, and the failure to allocate an array.
\<close>

datatype pyval =
    PyNone
  | PyBool bool
  | PyInt int
  | PyFloat real
  | PyStr string
  | PyDict "(string \<times> pyval) list"

text \<open>
  The exceptions the simulator can meet. \<open>ValueError_config e\<close> is the
  \<^verbatim>\<open>ValueError(f"Invalid configuration: {str(e)}")\<close> that \<^verbatim>\<open>validate_config\<close> raises
  from a caught exception \<open>e\<close>; the other \<open>ValueError_\<close> constructors are the
  ValueErrors of the built-in conversions and of numpy.
\<close>

datatype py_error =
    KeyError string
  | TypeError
  | ValueError_literal string
  | ValueError_config py_error
  | ValueError_probabilities
  | ValueError_negative_dimensions
  | ValueError_argmax_empty

definition bind_err :: "'e + 'a \<Rightarrow> ('a \<Rightarrow> 'e + 'b) \<Rightarrow> 'e + 'b" where
  "bind_err m f = (case m of Inl e \<Rightarrow> Inl e | Inr x \<Rightarrow> f x)"

text \<open>
  Python's parsers of numeric literals (\<^verbatim>\<open>float(str)\<close>, \<^verbatim>\<open>int(str)\<close>) are not part of the
  repository; they are parameters. \<open>None\<close> is the ValueError of a malformed literal.
\<close>

record py_builtins =
  str_to_float :: "string \<Rightarrow> real option"
  str_to_int :: "string \<Rightarrow> int option"

text \<open>\<^verbatim>\<open>d[k]\<close>: KeyError on a missing key, TypeError when \<open>d\<close> is not a dictionary.\<close>

fun py_subscript :: "pyval \<Rightarrow> string \<Rightarrow> py_error + pyval" where
  "py_subscript (PyDict kvs) k =
     (case map_of kvs k of None \<Rightarrow> Inl (KeyError k) | Some v \<Rightarrow> Inr v)"
| "py_subscript _ k = Inl TypeError"

text \<open>\<^verbatim>\<open>float(v)\<close>.\<close>

fun py_float :: "py_builtins \<Rightarrow> pyval \<Rightarrow> py_error + real" where
  "py_float B (PyFloat r) = Inr r"
| "py_float B (PyInt i) = Inr (of_int i)"
| "py_float B (PyBool b) = Inr (if b then 1 else 0)"
| "py_float B (PyStr s) =
     (case str_to_float B s of None \<Rightarrow> Inl (ValueError_literal s) | Some r \<Rightarrow> Inr r)"
| "py_float B PyNone = Inl TypeError"
| "py_float B (PyDict kvs) = Inl TypeError"

text \<open>\<^verbatim>\<open>int(v)\<close>: a float is truncated towards zero.\<close>

fun py_int :: "py_builtins \<Rightarrow> pyval \<Rightarrow> py_error + int" where
  "py_int B (PyInt i) = Inr i"
| "py_int B (PyFloat r) = Inr (if 0 \<le> r then \<lfloor>r\<rfloor> else \<lceil>r\<rceil>)"
| "py_int B (PyBool b) = Inr (if b then 1 else 0)"
| "py_int B (PyStr s) =
     (case str_to_int B s of None \<Rightarrow> Inl (ValueError_literal s) | Some i \<Rightarrow> Inr i)"
| "py_int B PyNone = Inl TypeError"
| "py_int B (PyDict kvs) = Inl TypeError"

section \<open>SimulationConfig and validate\_config\<close>

record SimulationConfig =
  signal_power :: real
  decoy_power :: real
  signal_prob :: real
  dark_count_rate :: real
  time_bin :: real
  channel_loss_db :: real
  sync_error_ppm :: real
  block_size :: int
  max_offset :: int

text \<open>\<^verbatim>\<open>float(config[group][key])\<close> and \<^verbatim>\<open>int(config[group][key])\<close>.\<close>

definition float_field :: "py_builtins \<Rightarrow> pyval \<Rightarrow> string \<Rightarrow> string \<Rightarrow> py_error + real" where
  "float_field B config g k =
     bind_err (py_subscript config g) (\<lambda>grp. bind_err (py_subscript grp k) (py_float B))"

definition int_field :: "py_builtins \<Rightarrow> pyval \<Rightarrow> string \<Rightarrow> string \<Rightarrow> py_error + int" where
  "int_field B config g k =
     bind_err (py_subscript config g) (\<lambda>grp. bind_err (py_subscript grp k) (py_int B))"

text \<open>The body of the \<^verbatim>\<open>try\<close>: the nine fields, converted in the order of the source.\<close>

definition build_config :: "py_builtins \<Rightarrow> pyval \<Rightarrow> py_error + SimulationConfig" where
  "build_config B config =
     bind_err (float_field B config ''alice'' ''mu1'') (\<lambda>mu1.
     bind_err (float_field B config ''alice'' ''mu2'') (\<lambda>mu2.
     bind_err (float_field B config ''alice'' ''p1'') (\<lambda>p1.
     bind_err (float_field B config ''bob'' ''darkCount'') (\<lambda>dark.
     bind_err (float_field B config ''bob'' ''timeBin'') (\<lambda>tb.
     bind_err (float_field B config ''channel'' ''loss'') (\<lambda>loss.
     bind_err (float_field B config ''channel'' ''syncError'') (\<lambda>sync.
     bind_err (int_field B config ''processing'' ''blockSize'') (\<lambda>bs.
     bind_err (int_field B config ''processing'' ''maxOffset'') (\<lambda>mo.
       Inr \<lparr> signal_power = mu1, decoy_power = mu2, signal_prob = p1,
             dark_count_rate = dark, time_bin = tb, channel_loss_db = loss,
             sync_error_ppm = sync, block_size = bs, max_offset = mo \<rparr>)))))))))"

text \<open>\<^verbatim>\<open>except (KeyError, ValueError) as e: raise ValueError(...)\<close>; a TypeError is not caught.\<close>

fun caught :: "py_error \<Rightarrow> bool" where
  "caught TypeError = False"
| "caught _ = True"

definition validate_config :: "py_builtins \<Rightarrow> pyval \<Rightarrow> py_error + SimulationConfig" where
  "validate_config B config =
     (case build_config B config of
        Inl e \<Rightarrow> if caught e then Inl (ValueError_config e) else Inl e
      | Inr c \<Rightarrow> Inr c)"

text \<open>
  The configuration of the repository's test suite (\<^verbatim>\<open>tests/test_quantum_channel.py\<close>,
  \<^verbatim>\<open>setUp\<close>), with \<^verbatim>\<open>alice.p1\<close> and \<^verbatim>\<open>processing.blockSize\<close> left open.
\<close>

definition test_config :: "real \<Rightarrow> int \<Rightarrow> pyval" where
  "test_config p1 bs =
     PyDict [(''alice'', PyDict [(''mu1'', PyFloat (1/10)), (''mu2'', PyFloat (5/100)),
                                 (''p1'', PyFloat p1)]),
             (''bob'', PyDict [(''darkCount'', PyInt 100), (''timeBin'', PyFloat (100 / 10^12))]),
             (''channel'', PyDict [(''loss'', PyFloat (2/10)), (''length'', PyInt 10),
                                   (''syncError'', PyFloat (1/10))]),
             (''processing'', PyDict [(''blockSize'', PyInt bs), (''maxOffset'', PyInt 50)])]"

text \<open>The SimulationConfig that \<^verbatim>\<open>validate_config\<close> builds from \<open>test_config\<close>.\<close>

definition test_sim_config :: "real \<Rightarrow> int \<Rightarrow> SimulationConfig" where
  "test_sim_config p1 bs =
     \<lparr> signal_power = 1/10, decoy_power = 5/100, signal_prob = p1,
       dark_count_rate = 100, time_bin = 100 / 10^12, channel_loss_db = 2/10,
       sync_error_ppm = 1/10, block_size = bs, max_offset = 50 \<rparr>"

section \<open>numpy's random generator\<close>

text \<open>
  The simulator draws from numpy's process-wide generator (\<^verbatim>\<open>np.random.choice\<close>,
  \<^verbatim>\<open>np.random.randint\<close>, \<^verbatim>\<open>np.random.rand\<close>). The generator is not part of the
  repository: its state type \<open>'s\<close> and its two primitives are parameters, and every
  function that draws takes the state and returns the state it leaves.
  \<open>next_double\<close> is one uniform sample of [0, 1), \<open>next_int lo hi\<close> is
  \<^verbatim>\<open>randint(lo, hi)\<close>.
\<close>

record 's np_random =
  next_double :: "'s \<Rightarrow> real \<times> 's"
  next_int :: "int \<Rightarrow> int \<Rightarrow> 's \<Rightarrow> int \<times> 's"

text \<open>\<^verbatim>\<open>random_sample(n)\<close>, also \<^verbatim>\<open>np.random.rand(n)\<close>: \<open>n\<close> consecutive samples.\<close>

fun random_sample :: "'s np_random \<Rightarrow> nat \<Rightarrow> 's \<Rightarrow> real list \<times> 's" where
  "random_sample G 0 s = ([], s)"
| "random_sample G (Suc n) s =
     (case next_double G s of (u, s') \<Rightarrow>
        (case random_sample G n s' of (us, s'') \<Rightarrow> (u # us, s'')))"

text \<open>
  \<^verbatim>\<open>np.random.choice([a0, a1], p=[p, 1 - p], size=n)\<close>. numpy rejects a negative
  probability and a negative size with a ValueError; otherwise it draws \<open>n\<close> uniform
  samples and looks each one up in the cumulative distribution [p, 1]: a sample \<open>u\<close>
  selects index 0 exactly when \<open>u < p\<close>, index 1 otherwise. \<open>choice_index\<close> is that
  Bernoulli outcome, \<open>choice_value\<close> the element it selects.
\<close>

definition choice_index :: "real \<Rightarrow> real \<Rightarrow> nat" where
  "choice_index p u = (if u < p then 0 else 1)"

definition choice_value :: "real \<Rightarrow> real \<Rightarrow> nat \<Rightarrow> real" where
  "choice_value a0 a1 i = (if i = 0 then a0 else a1)"

definition np_choice ::
  "'s np_random \<Rightarrow> real \<Rightarrow> real \<Rightarrow> real \<Rightarrow> int \<Rightarrow> 's \<Rightarrow> py_error + (real list \<times> 's)" where
  "np_choice G a0 a1 p n s =
     (if p < 0 \<or> 1 - p < 0 then Inl ValueError_probabilities
      else if n < 0 then Inl ValueError_negative_dimensions
      else (case random_sample G (nat n) s of
              (us, s') \<Rightarrow> Inr (map (\<lambda>u. choice_value a0 a1 (choice_index p u)) us, s')))"

section \<open>generate\_states\<close>

text \<open>
  Returns the pulse values and the intensity array
  \<^verbatim>\<open>(states == config.signal_power).astype(int)\<close>.
\<close>

definition generate_states ::
  "'s np_random \<Rightarrow> SimulationConfig \<Rightarrow> 's \<Rightarrow> py_error + ((real list \<times> int list) \<times> 's)" where
  "generate_states G config s =
     bind_err (np_choice G (signal_power config) (decoy_power config) (signal_prob config)
                 (block_size config) s)
       (\<lambda>(states, s').
          Inr ((states, map (\<lambda>x. if x = signal_power config then 1 else 0) states), s'))"

section \<open>apply\_channel\_effects\<close>

definition attenuation :: "SimulationConfig \<Rightarrow> real" where
  "attenuation config = 10 powr (channel_loss_db config / 10)"

definition P_dark :: "SimulationConfig \<Rightarrow> real" where
  "P_dark config = 1 - exp (- dark_count_rate config * time_bin config * (1 / 10 ^ 12))"

text \<open>
  \<^verbatim>\<open>detection_prob = 1 - np.exp(-extended_states * attenuation)\<close> followed by
  \<^verbatim>\<open>detection_prob += P_dark\<close>, elementwise.
\<close>

definition detection_prob :: "SimulationConfig \<Rightarrow> real list \<Rightarrow> real list" where
  "detection_prob config extended_states =
     map (\<lambda>x. 1 - exp (- x * attenuation config) + P_dark config) extended_states"

text \<open>\<^verbatim>\<open>if delay is None: delay = config.max_offset + np.random.randint(0, 1001)\<close>.\<close>

definition choose_delay ::
  "'s np_random \<Rightarrow> SimulationConfig \<Rightarrow> int option \<Rightarrow> 's \<Rightarrow> int \<times> 's" where
  "choose_delay G config delay s =
     (case delay of
        None \<Rightarrow> (case next_int G 0 1001 s of (r, s') \<Rightarrow> (max_offset config + r, s'))
      | Some d \<Rightarrow> (d, s))"

definition apply_channel_effects ::
  "'s np_random \<Rightarrow> real list \<Rightarrow> SimulationConfig \<Rightarrow> int option \<Rightarrow> 's
     \<Rightarrow> py_error + ((bool list \<times> int) \<times> 's)" where
  "apply_channel_effects G states config delay s =
     (case choose_delay G config delay s of (d, s0) \<Rightarrow>
        bind_err (np_choice G (signal_power config) (decoy_power config) (signal_prob config) d s0)
          (\<lambda>(front_pad, s1).
        bind_err (np_choice G (signal_power config) (decoy_power config) (signal_prob config) d s1)
          (\<lambda>(end_pad, s2).
             let extended_states = front_pad @ states @ end_pad;
                 probs = detection_prob config extended_states
             in (case random_sample G (length probs) s2 of
                   (us, s3) \<Rightarrow> Inr ((map2 (\<lambda>u q. u < q) us probs, d), s3)))))"

section \<open>Binary64 arithmetic\<close>

text \<open>
  A float64 value: a finite value, an infinity or NaN (signed zeros are not told apart).
\<close>

datatype np_float = Finite real | PosInf | NegInf | NaN

text \<open>
  Rounding of a real to the nearest binary64 number, ties to the even significand: the
  significand has 53 bits, the binary exponent is at least -1022 (below it the numbers
  are subnormal and equally spaced). \<open>to_float\<close> adds the overflow to an infinity.
\<close>

definition round_half_even :: "real \<Rightarrow> int" where
  "round_half_even y =
     (let f = \<lfloor>y\<rfloor>; r = y - of_int f
      in if r < 1/2 then f else if 1/2 < r then f + 1 else if even f then f else f + 1)"

definition binary64_exponent :: "real \<Rightarrow> int" where
  "binary64_exponent x = max \<lfloor>log 2 \<bar>x\<bar>\<rfloor> (- 1022)"

definition binary64 :: "real \<Rightarrow> real" where
  "binary64 x =
     (if x = 0 then 0
      else of_int (round_half_even (x / 2 powi (binary64_exponent x - 52)))
             * 2 powi (binary64_exponent x - 52))"

definition to_float :: "real \<Rightarrow> np_float" where
  "to_float x =
     (let r = binary64 x
      in if 2 ^ 1024 \<le> r then PosInf else if r \<le> - (2 ^ 1024) then NegInf else Finite r)"

text \<open>Python's \<^verbatim>\<open>a * b\<close> on floats (it does not raise), \<^verbatim>\<open>abs\<close>, and numpy's
  \<^verbatim>\<open>int64 <= float\<close>, which converts the integer to a float first.\<close>

fun float_mul :: "np_float \<Rightarrow> np_float \<Rightarrow> np_float" where
  "float_mul (Finite a) (Finite b) = to_float (a * b)"
| "float_mul NaN _ = NaN"
| "float_mul _ NaN = NaN"
| "float_mul (Finite a) PosInf = (if a = 0 then NaN else if 0 < a then PosInf else NegInf)"
| "float_mul (Finite a) NegInf = (if a = 0 then NaN else if 0 < a then NegInf else PosInf)"
| "float_mul PosInf (Finite b) = (if b = 0 then NaN else if 0 < b then PosInf else NegInf)"
| "float_mul NegInf (Finite b) = (if b = 0 then NaN else if 0 < b then NegInf else PosInf)"
| "float_mul PosInf PosInf = PosInf"
| "float_mul PosInf NegInf = NegInf"
| "float_mul NegInf PosInf = NegInf"
| "float_mul NegInf NegInf = PosInf"

fun float_abs :: "np_float \<Rightarrow> np_float" where
  "float_abs (Finite a) = Finite \<bar>a\<bar>"
| "float_abs PosInf = PosInf"
| "float_abs NegInf = PosInf"
| "float_abs NaN = NaN"

fun int_le_float :: "int \<Rightarrow> np_float \<Rightarrow> bool" where
  "int_le_float i (Finite a) \<longleftrightarrow> binary64 (real_of_int i) \<le> a"
| "int_le_float i PosInf \<longleftrightarrow> True"
| "int_le_float i NegInf \<longleftrightarrow> False"
| "int_le_float i NaN \<longleftrightarrow> False"

text \<open>The literal \<^verbatim>\<open>1e-6\<close>: the binary64 number nearest to \<open>10\<^sup>-\<^sup>6\<close>.\<close>

definition double_1e_6 :: real where
  "double_1e_6 = binary64 (1 / 10 ^ 6)"

text \<open>
  \<^verbatim>\<open>abs(config.sync_error_ppm * 1e-6 * config.block_size)\<close>: the product is evaluated from
  the left, the integer \<open>block_size\<close> is converted to a float for the second product.
\<close>

definition sync_tolerance :: "SimulationConfig \<Rightarrow> np_float" where
  "sync_tolerance config =
     float_abs (float_mul (float_mul (Finite (sync_error_ppm config)) (Finite double_1e_6))
                  (Finite (binary64 (real_of_int (block_size config)))))"

section \<open>find\_delay\<close>

text \<open>
  \<^verbatim>\<open>scipy.signal.correlate(in1, in2, mode='valid', method='fft')\<close> on an integer and a
  boolean array. scipy computes the convolution of \<open>in1\<close> with the reversed \<open>in2\<close>,
  swaps the operands when \<open>in2\<close> is the longer one, returns the empty array when either
  operand is empty, and rounds the result to the integers since both operands have an
  integer kind. Its value is the sliding dot product of the shorter operand along the
  longer one, over the positions of full overlap: in the order of the positions when
  \<open>in1\<close> is the longer operand, in reverse order when \<open>in2\<close> is.
\<close>

definition dot :: "int list \<Rightarrow> int list \<Rightarrow> int" where
  "dot xs ys = sum_list (map2 (\<lambda>x y. x * y) xs ys)"

definition sliding_dots :: "int list \<Rightarrow> int list \<Rightarrow> int list" where
  "sliding_dots short long =
     map (\<lambda>i. dot short (drop i long)) [0 ..< length long - length short + 1]"

definition correlate :: "int list \<Rightarrow> int list \<Rightarrow> int list" where
  "correlate in1 in2 =
     (if in1 = [] \<or> in2 = [] then []
      else if length in2 \<le> length in1 then sliding_dots in2 in1
      else rev (sliding_dots in1 in2))"

text \<open>\<^verbatim>\<open>np.argmax\<close>: the first index of the maximum; ValueError on an empty array.\<close>

fun argmax_from :: "nat \<Rightarrow> int \<Rightarrow> nat \<Rightarrow> int list \<Rightarrow> nat" where
  "argmax_from best bestv i [] = best"
| "argmax_from best bestv i (x # xs) =
     (if bestv < x then argmax_from i x (Suc i) xs else argmax_from best bestv (Suc i) xs)"

fun np_argmax :: "int list \<Rightarrow> py_error + nat" where
  "np_argmax [] = Inl ValueError_argmax_empty"
| "np_argmax (x # xs) = Inr (argmax_from 0 x 1 xs)"

definition find_delay ::
  "int list \<Rightarrow> bool list \<Rightarrow> SimulationConfig \<Rightarrow> int
     \<Rightarrow> py_error + (int list \<times> int list \<times> nat \<times> bool)" where
  "find_delay intensity detections config actual_delay =
     (let cross_corr = correlate intensity (map (\<lambda>b. if b then 1 else 0) detections)
      in bind_err (np_argmax cross_corr) (\<lambda>optimal_lag.
           let time_points =
                 map (\<lambda>i. int i - int (length cross_corr div 2)) [0 ..< length cross_corr];
               sync_success =
                 int_le_float \<bar>int optimal_lag - actual_delay\<bar> (sync_tolerance config)
           in Inr (time_points, cross_corr, optimal_lag, sync_success)))"

section \<open>calculate\_statistics\<close>

text \<open>
  \<open>np_truediv\<close> is numpy's true division, which never raises: a zero divisor gives an
  infinity of the dividend's sign, or NaN for 0/0. The quotient of two finite values is
  taken over the reals.
\<close>

fun np_truediv :: "np_float \<Rightarrow> np_float \<Rightarrow> np_float" where
  "np_truediv (Finite a) (Finite b) =
     (if b = 0 then (if a = 0 then NaN else if 0 < a then PosInf else NegInf)
      else Finite (a / b))"
| "np_truediv NaN _ = NaN"
| "np_truediv _ NaN = NaN"
| "np_truediv (Finite a) _ = Finite 0"
| "np_truediv PosInf (Finite b) = (if 0 \<le> b then PosInf else NegInf)"
| "np_truediv NegInf (Finite b) = (if 0 \<le> b then NegInf else PosInf)"
| "np_truediv _ _ = NaN"

definition calculate_statistics ::
  "bool list \<Rightarrow> SimulationConfig \<Rightarrow> int \<times> np_float \<times> np_float" where
  "calculate_statistics detections config =
     (let total_counts = int (length (filter (\<lambda>b. b) detections));
          duration = real (length detections) * time_bin config * (1 / 10 ^ 12);
          mean_rate = np_truediv (Finite (real_of_int total_counts)) (Finite duration);
          signal_window = time_bin config * (1 / 10 ^ 12);
          dark_contribution = dark_count_rate config * signal_window;
          qber = np_truediv (Finite dark_contribution)
                   (np_truediv (Finite (real_of_int total_counts))
                      (Finite (real (length detections))))
      in (total_counts, mean_rate, qber))"

section \<open>run\<close>

record statistics =
  total_counts :: int
  mean_count_rate :: np_float
  qber :: np_float
  sync_success :: bool

record run_output =
  time_points :: "int list"
  cross_correlation :: "int list"
  counts :: "bool list"
  peak_position :: int
  statistics :: statistics

definition run ::
  "py_builtins \<Rightarrow> 's np_random \<Rightarrow> pyval \<Rightarrow> 's \<Rightarrow> py_error + (run_output \<times> 's)" where
  "run B G config_dict s =
     bind_err (validate_config B config_dict) (\<lambda>config.
     bind_err (generate_states G config s) (\<lambda>((states, intensity), s1).
     bind_err (apply_channel_effects G states config None s1) (\<lambda>((detections, actual_delay), s2).
     bind_err (find_delay intensity detections config actual_delay)
       (\<lambda>(tp, cross_corr, found_delay, success).
          (case calculate_statistics detections config of
             (total_count, mean_rate, q) \<Rightarrow>
               Inr (\<lparr> time_points = tp, cross_correlation = cross_corr, counts = detections,
                      peak_position = int found_delay,
                      statistics = \<lparr> total_counts = total_count, mean_count_rate = mean_rate,
                                      qber = q, sync_success = success \<rparr> \<rparr>, s2))))))"

section \<open>Inputs of the specification, and a generator to run the model on\<close>

text \<open>
  The bounds the specification's data model puts on a SimulationConfig. The source has
  no such predicate; it is used only as a hypothesis on inputs.
\<close>

definition spec_valid :: "SimulationConfig \<Rightarrow> bool" where
  "spec_valid c \<longleftrightarrow>
     0 \<le> signal_power c \<and> 0 \<le> decoy_power c \<and> 0 \<le> signal_prob c \<and> signal_prob c \<le> 1 \<and>
     0 \<le> dark_count_rate c \<and> 0 < time_bin c \<and> 0 \<le> channel_loss_db c \<and>
     0 \<le> sync_error_ppm c \<and> 0 < block_size c \<and> 0 \<le> max_offset c"

text \<open>numpy's contract for \<^verbatim>\<open>randint(lo, hi)\<close>: the value lies in [lo, hi).\<close>

definition randint_in_range :: "'s np_random \<Rightarrow> bool" where
  "randint_in_range G \<longleftrightarrow>
     (\<forall>lo hi s. lo < hi \<longrightarrow> lo \<le> fst (next_int G lo hi s) \<and> fst (next_int G lo hi s) < hi)"

text \<open>
  A small deterministic generator whose state is a counter: the samples cycle through
  0, 1/4, 1/2, 3/4.
\<close>

definition counter_gen :: "nat np_random" where
  "counter_gen =
     \<lparr> next_double = (\<lambda>s. (real (s mod 4) / 4, Suc s)),
       next_int = (\<lambda>lo hi s. (lo + int s mod (hi - lo), Suc s)) \<rparr>"


text \<open>
  Configurations within the bounds of \<open>spec_valid\<close>: one whose detection probability
  leaves [0, 1], one without dark counts and with a dark decoy, the test suite's with a
  tolerance of 100 ppm on 10000 bins, and one whose signal and decoy powers coincide.
\<close>

definition hot_config :: SimulationConfig where
  "hot_config =
     \<lparr> signal_power = 2, decoy_power = 0, signal_prob = 1,
       dark_count_rate = 2 * 10 ^ 12, time_bin = 1, channel_loss_db = 0,
       sync_error_ppm = 0, block_size = 1, max_offset = 0 \<rparr>"

definition dark_free_config :: SimulationConfig where
  "dark_free_config =
     \<lparr> signal_power = 2, decoy_power = 0, signal_prob = 1/2,
       dark_count_rate = 0, time_bin = 100, channel_loss_db = 0,
       sync_error_ppm = 100, block_size = 2, max_offset = 0 \<rparr>"

definition rounding_config :: SimulationConfig where
  "rounding_config = (test_sim_config (8/10) 10000)\<lparr>sync_error_ppm := 100\<rparr>"

definition equal_power_config :: SimulationConfig where
  "equal_power_config =
     \<lparr> signal_power = 1/10, decoy_power = 1/10, signal_prob = 1/2,
       dark_count_rate = 100, time_bin = 100, channel_loss_db = 2/10,
       sync_error_ppm = 1/10, block_size = 2, max_offset = 50 \<rparr>"

section \<open>Validation\<close>

lemma validate_test_config:
  "validate_config B (test_config p1 bs) = Inr (test_sim_config p1 bs)"
  by (simp add: validate_config_def build_config_def float_field_def int_field_def
      bind_err_def test_config_def test_sim_config_def)

text \<open>
  C1. The claim: validate\_config raises the validation error when \<^verbatim>\<open>alice.p1\<close> is 1.5
  and when \<^verbatim>\<open>processing.blockSize\<close> is 0. The source only converts the fields; it checks
  no range. On the test suite's configuration with \<^verbatim>\<open>p1 = 1.5\<close>, and on the same
  configuration with \<^verbatim>\<open>blockSize = 0\<close>, it returns a SimulationConfig holding the
  offending value.
\<close>

theorem validate_config_accepts_out_of_range:
  "validate_config B (test_config (15/10) 1000) =
     Inr \<lparr> signal_power = 1/10, decoy_power = 5/100, signal_prob = 15/10,
           dark_count_rate = 100, time_bin = 100 / 10^12, channel_loss_db = 2/10,
           sync_error_ppm = 1/10, block_size = 1000, max_offset = 50 \<rparr>
   \<and> validate_config B (test_config (8/10) 0) =
     Inr \<lparr> signal_power = 1/10, decoy_power = 5/100, signal_prob = 8/10,
           dark_count_rate = 100, time_bin = 100 / 10^12, channel_loss_db = 2/10,
           sync_error_ppm = 1/10, block_size = 0, max_offset = 50 \<rparr>"
  by (simp add: validate_config_def build_config_def float_field_def int_field_def
      bind_err_def test_config_def)

section \<open>Rounding\<close>

lemma binary64_exponent_eq:
  assumes "2 powi e \<le> \<bar>x\<bar>" "\<bar>x\<bar> < 2 powi (e + 1)" "- 1022 \<le> e"
  shows "binary64_exponent x = e"
proof -
  have pos: "0 < \<bar>x\<bar>" using assms(1) by (smt (verit) zero_less_power_int)
  have p: "(2::real) powr real_of_int k = 2 powi k" for k :: int
    by (rule powr_real_of_int') simp_all
  have "(\<lfloor>log 2 \<bar>x\<bar>\<rfloor> = e) = (2 powr real_of_int e \<le> \<bar>x\<bar> \<and> \<bar>x\<bar> < 2 powr real_of_int (e + 1))"
    by (rule floor_log_eq_powr_iff[OF pos]) simp
  with assms(1,2) have "\<lfloor>log 2 \<bar>x\<bar>\<rfloor> = e" by (simp only: p)
  with assms(3) show ?thesis by (simp add: binary64_exponent_def)
qed

text \<open>The rounding of \<open>x\<close>, once its binary exponent \<open>e\<close> is known.\<close>

lemma binary64_eqI:
  assumes "2 powi e \<le> \<bar>x\<bar>" "\<bar>x\<bar> < 2 powi (e + 1)" "- 1022 \<le> e"
    and "of_int (round_half_even (x / 2 powi (e - 52))) * 2 powi (e - 52) = r"
  shows "binary64 x = r"
proof -
  have "0 < \<bar>x\<bar>" using assms(1) by (smt (verit) zero_less_power_int)
  then have "x \<noteq> 0" by simp
  with binary64_exponent_eq[OF assms(1-3)] assms(4) show ?thesis by (simp add: binary64_def)
qed

lemma float_mul_eqI:
  assumes "2 powi e \<le> \<bar>a * b\<bar>" "\<bar>a * b\<bar> < 2 powi (e + 1)" "- 1022 \<le> e"
    and "of_int (round_half_even (a * b / 2 powi (e - 52))) * 2 powi (e - 52) = r"
    and "\<bar>r\<bar> < 2 ^ 1024"
  shows "float_mul (Finite a) (Finite b) = Finite r"
proof -
  have r: "binary64 (a * b) = r" using assms(1-4) by (rule binary64_eqI)
  from assms(5) have "\<not> 2 ^ 1024 \<le> r" "\<not> r \<le> - (2 ^ 1024)" by linarith+
  then show ?thesis by (simp only: float_mul.simps to_float_def r Let_def if_False)
qed

lemma double_1e_6_value: "double_1e_6 = 4722366482869645 / 2 ^ 72"
  unfolding double_1e_6_def
  by (rule binary64_eqI[where e = "- 20"]) (simp_all add: round_half_even_def Let_def)

lemma binary64_1: "binary64 1 = 1"
  by (rule binary64_eqI[where e = 0]) (simp_all add: round_half_even_def Let_def)

lemma binary64_2: "binary64 2 = 2"
  by (rule binary64_eqI[where e = 1]) (simp_all add: round_half_even_def Let_def)

lemma binary64_10000: "binary64 10000 = 10000"
  by (rule binary64_eqI[where e = 13]) (simp_all add: round_half_even_def Let_def)

text \<open>
  100 ppm on 10000 bins: the first product is rounded down, and the tolerance is the
  float just below 1 (Python prints it as 0.9999999999999999).
\<close>

lemma sync_tolerance_rounding_config:
  "sync_tolerance rounding_config = Finite ((2 ^ 53 - 1) / 2 ^ 53)"
proof -
  have a: "float_mul (Finite 100) (Finite double_1e_6) = Finite (1844674407370955 / 2 ^ 64)"
    unfolding double_1e_6_value
    by (rule float_mul_eqI[where e = "- 14"]) (simp_all add: round_half_even_def Let_def)
  have b: "float_mul (Finite (1844674407370955 / 2 ^ 64)) (Finite 10000)
             = Finite ((2 ^ 53 - 1) / 2 ^ 53)"
    by (rule float_mul_eqI[where e = "- 1"]) (simp_all add: round_half_even_def Let_def)
  have "sync_tolerance rounding_config
          = float_abs (float_mul (float_mul (Finite 100) (Finite double_1e_6)) (Finite 10000))"
    by (simp add: sync_tolerance_def rounding_config_def test_sim_config_def binary64_10000)
  also have "\<dots> = Finite ((2 ^ 53 - 1) / 2 ^ 53)"
    unfolding a b by simp
  finally show ?thesis .
qed

text \<open>The test suite's 0.1 ppm on one bin: about \<open>10\<^sup>-\<^sup>7\<close>.\<close>

lemma sync_tolerance_one_bin:
  "sync_tolerance ((test_sim_config (8/10) 1)\<lparr>max_offset := 1\<rparr>)
     = Finite (944473296573929 / 2 ^ 73)"
proof -
  have a: "float_mul (Finite (1 / 10)) (Finite double_1e_6) = Finite (944473296573929 / 2 ^ 73)"
    unfolding double_1e_6_value
    by (rule float_mul_eqI[where e = "- 24"]) (simp_all add: round_half_even_def Let_def)
  have b: "float_mul (Finite (944473296573929 / 2 ^ 73)) (Finite 1)
             = Finite (944473296573929 / 2 ^ 73)"
    by (rule float_mul_eqI[where e = "- 24"]) (simp_all add: round_half_even_def Let_def)
  have "sync_tolerance ((test_sim_config (8/10) 1)\<lparr>max_offset := 1\<rparr>)
          = float_abs (float_mul (float_mul (Finite (1 / 10)) (Finite double_1e_6)) (Finite 1))"
    by (simp add: sync_tolerance_def test_sim_config_def binary64_1)
  also have "\<dots> = Finite (944473296573929 / 2 ^ 73)"
    unfolding a b by simp
  finally show ?thesis .
qed

section \<open>Delay recovery\<close>

lemma random_sample_length: "length (fst (random_sample G n s)) = n"
proof (induction n arbitrary: s)
  case 0
  then show ?case by simp
next
  case (Suc n)
  obtain u s' where d: "next_double G s = (u, s')" by (cases "next_double G s")
  obtain us s'' where r: "random_sample G n s' = (us, s'')" by (cases "random_sample G n s'")
  from Suc[of s'] r have "length us = n" by simp
  with d r show ?case by simp
qed

text \<open>
  The scan of \<open>np_argmax\<close> keeps an invariant: \<open>ys\<close> is the part already scanned,
  \<open>best\<close> the first index of its maximum \<open>bestv\<close>.
\<close>

lemma argmax_from_spec:
  assumes "best < length ys" "ys ! best = bestv"
    "\<forall>j < length ys. ys ! j \<le> bestv" "\<forall>j < best. ys ! j < bestv"
  shows "let r = argmax_from best bestv (length ys) xs; zs = ys @ xs in
           r < length zs \<and> (\<forall>j < length zs. zs ! j \<le> zs ! r) \<and> (\<forall>j < r. zs ! j < zs ! r)"
  using assms
proof (induction xs arbitrary: best bestv ys)
  case Nil
  then show ?case by (simp add: Let_def)
next
  case (Cons x xs)
  show ?case
  proof (cases "bestv < x")
    case True
    have "let r = argmax_from (length ys) x (length (ys @ [x])) xs; zs = (ys @ [x]) @ xs in
           r < length zs \<and> (\<forall>j < length zs. zs ! j \<le> zs ! r) \<and> (\<forall>j < r. zs ! j < zs ! r)"
    proof (rule Cons.IH)
      show "length ys < length (ys @ [x])" by simp
      show "(ys @ [x]) ! length ys = x" by simp
      show "\<forall>j<length (ys @ [x]). (ys @ [x]) ! j \<le> x"
        using Cons.prems(3) True by (auto simp: nth_append less_Suc_eq)
      show "\<forall>j<length ys. (ys @ [x]) ! j < x"
        using Cons.prems(3) True by (auto simp: nth_append)
    qed
    with True show ?thesis by (simp add: Let_def)
  next
    case False
    have "let r = argmax_from best bestv (length (ys @ [x])) xs; zs = (ys @ [x]) @ xs in
           r < length zs \<and> (\<forall>j < length zs. zs ! j \<le> zs ! r) \<and> (\<forall>j < r. zs ! j < zs ! r)"
    proof (rule Cons.IH)
      show "best < length (ys @ [x])" using Cons.prems(1) by simp
      show "(ys @ [x]) ! best = bestv" using Cons.prems(1,2) by (simp add: nth_append)
      show "\<forall>j<length (ys @ [x]). (ys @ [x]) ! j \<le> bestv"
        using Cons.prems(3) False by (auto simp: nth_append less_Suc_eq)
      show "\<forall>j<best. (ys @ [x]) ! j < bestv"
        using Cons.prems(1,4) by (auto simp: nth_append)
    qed
    with False show ?thesis by (simp add: Let_def)
  qed
qed

lemma np_argmax_first_max:
  assumes "xs \<noteq> []"
  shows "\<exists>r. np_argmax xs = Inr r \<and> r < length xs \<and> (\<forall>j < length xs. xs ! j \<le> xs ! r)
            \<and> (\<forall>j < r. xs ! j < xs ! r)"
proof -
  from assms obtain x xs' where xs: "xs = x # xs'" by (cases xs) auto
  have "let r = argmax_from 0 x (length [x]) xs'; zs = [x] @ xs' in
           r < length zs \<and> (\<forall>j < length zs. zs ! j \<le> zs ! r) \<and> (\<forall>j < r. zs ! j < zs ! r)"
    by (rule argmax_from_spec) auto
  then show ?thesis by (simp add: xs Let_def)
qed

lemma length_sliding_dots: "length (sliding_dots short long) = length long - length short + 1"
  by (simp add: sliding_dots_def)

lemma length_correlate:
  "in1 \<noteq> [] \<Longrightarrow> in2 \<noteq> [] \<Longrightarrow> length in1 \<le> length in2 \<Longrightarrow>
     length (correlate in1 in2) = length in2 - length in1 + 1"
  by (auto simp: correlate_def length_sliding_dots)

lemma correlate_nonempty: "in1 \<noteq> [] \<Longrightarrow> in2 \<noteq> [] \<Longrightarrow> correlate in1 in2 \<noteq> []"
  by (auto simp: correlate_def sliding_dots_def)

lemma dot_commute: "dot xs ys = dot ys xs"
proof -
  have "map2 (\<lambda>x y. x * y) xs ys = map2 (\<lambda>x y. x * y) ys xs"
    by (induction xs ys rule: list_induct2') (auto simp: mult.commute)
  then show ?thesis by (simp add: dot_def)
qed

lemma sliding_dots_nth:
  "k < length long - length short + 1 \<Longrightarrow> sliding_dots short long ! k = dot short (drop k long)"
  by (simp add: sliding_dots_def del: upt_Suc)

text \<open>
  Entry \<open>k\<close> of the trace is the overlap of the indicator with the detections shifted
  by \<open>length in2 - length in1 - k\<close> bins: scipy lists the shifts from the largest down.
\<close>

lemma correlate_nth:
  assumes "in1 \<noteq> []" "length in1 \<le> length in2" "k < length in2 - length in1 + 1"
  shows "correlate in1 in2 ! k = dot in1 (drop (length in2 - length in1 - k) in2)"
proof (cases "length in1 = length in2")
  case True
  with assms have "k = 0" "in2 \<noteq> []" by auto
  with True assms show ?thesis
    by (simp add: correlate_def sliding_dots_def dot_commute)
next
  case False
  with assms have lt: "length in1 < length in2" by simp
  then have ne: "in2 \<noteq> []" by auto
  have len: "length (sliding_dots in1 in2) = length in2 - length in1 + 1"
    by (simp add: length_sliding_dots)
  have "correlate in1 in2 ! k = rev (sliding_dots in1 in2) ! k"
    using lt ne assms(1) by (simp add: correlate_def)
  also have "\<dots> = sliding_dots in1 in2 ! (length in2 - length in1 + 1 - Suc k)"
    using assms(3) len by (simp add: rev_nth)
  also have "\<dots> = dot in1 (drop (length in2 - length in1 - k) in2)"
    using assms(3) by (simp add: sliding_dots_nth)
  finally show ?thesis .
qed

lemma find_delay_returns:
  assumes "intensity \<noteq> []" and "detections \<noteq> []"
  shows "\<exists>tp cc lag ok.
           find_delay intensity detections config actual_delay = Inr (tp, cc, lag, ok) \<and>
           cc = correlate intensity (map (\<lambda>b. if b then 1 else 0) detections) \<and>
           lag < length cc \<and> (\<forall>j < length cc. cc ! j \<le> cc ! lag) \<and> (\<forall>j < lag. cc ! j < cc ! lag) \<and>
           (ok \<longleftrightarrow> int_le_float \<bar>int lag - actual_delay\<bar> (sync_tolerance config))"
proof -
  let ?cc = "correlate intensity (map (\<lambda>b. if b then 1 else 0) detections)"
  from assms have "?cc \<noteq> []" by (simp add: correlate_nonempty)
  from np_argmax_first_max[OF this] obtain r where
    r: "np_argmax ?cc = Inr r" "r < length ?cc" "\<forall>j < length ?cc. ?cc ! j \<le> ?cc ! r"
       "\<forall>j < r. ?cc ! j < ?cc ! r" by blast
  then show ?thesis
    by (simp add: find_delay_def bind_err_def Let_def)
qed

lemma upt_3: "[0..<3] = [0, 1, 2]"
  by (simp add: upt_rec)

text \<open>
  C4. The claim: success is reported exactly when
  \<open>|foundDelay - actualDelay| \<le> |sync_error \<cdot> 1e-6 \<cdot> block_size|\<close>. The code evaluates
  the tolerance in binary64 floating point, so the flag is decided by the rounded
  tolerance, not by the product of the three numbers. The amended statement: for a
  non-empty indicator and a non-empty detection sequence, whatever the configuration and
  the actual delay, find\_delay returns and raises nothing; the found delay is the
  arg-max of the correlation trace, the first index on ties; and the success flag holds
  exactly when \<open>|foundDelay - actualDelay|\<close>, as a float, is at most the float
  \<open>abs((sync_error * 1e-6) * block_size)\<close>, each product rounded to the nearest binary64
  number. A failure to synchronise is the returned flag \<open>False\<close>.
\<close>

theorem find_delay_success_iff:
  assumes "intensity \<noteq> []" and "detections \<noteq> []"
  shows "\<exists>tp cc lag ok.
           find_delay intensity detections config actual_delay = Inr (tp, cc, lag, ok) \<and>
           cc = correlate intensity (map (\<lambda>b. if b then 1 else 0) detections) \<and>
           lag < length cc \<and> (\<forall>j < length cc. cc ! j \<le> cc ! lag) \<and> (\<forall>j < lag. cc ! j < cc ! lag) \<and>
           (ok \<longleftrightarrow>
              int_le_float \<bar>int lag - actual_delay\<bar>
                (float_abs
                   (float_mul (float_mul (Finite (sync_error_ppm config)) (Finite double_1e_6))
                      (Finite (binary64 (real_of_int (block_size config)))))))"
  using find_delay_returns[OF assms, of config actual_delay]
  by (simp only: sync_tolerance_def)

theorem find_delay_success_iff_witness:
  "[1] \<noteq> ([]::int list) \<and> [False, True, False] \<noteq> [] \<and>
   correlate [1] (map (\<lambda>b. if b then 1 else 0) [False, True, False]) = [0, 1, 0] \<and>
   find_delay [1] [False, True, False] rounding_config 1 = Inr ([-1, 0, 1], [0, 1, 0], 1, True) \<and>
   find_delay [1] [False, True, False] rounding_config 3 = Inr ([-1, 0, 1], [0, 1, 0], 1, False)"
proof -
  have cc: "correlate [1] (map (\<lambda>b. if b then 1 else 0) [False, True, False]) = [0, 1, 0]"
    by (simp add: correlate_def sliding_dots_def dot_def upt_3)
  have tol: "float_abs
               (float_mul (float_mul (Finite (sync_error_ppm rounding_config)) (Finite double_1e_6))
                  (Finite (binary64 (real_of_int (block_size rounding_config)))))
             = Finite ((2 ^ 53 - 1) / 2 ^ 53)"
    using sync_tolerance_rounding_config by (simp only: sync_tolerance_def)
  have tp: "map (\<lambda>i. int i - int (length [0, 1, 0 :: int] div 2)) [0 ..< length [0, 1, 0 :: int]]
              = [-1, 0, 1]"
    by (simp add: upt_3)
  have run: "\<exists>ok. find_delay [1] [False, True, False] rounding_config a
                    = Inr ([-1, 0, 1], [0, 1, 0], 1, ok) \<and>
                  (ok \<longleftrightarrow> int_le_float \<bar>1 - a\<bar> (Finite ((2 ^ 53 - 1) / 2 ^ 53)))" for a
  proof -
    from find_delay_success_iff[of "[1]" "[False, True, False]" rounding_config a]
    obtain tp' cc' lag ok where
      f: "find_delay [1] [False, True, False] rounding_config a = Inr (tp', cc', lag, ok)"
      and c: "cc' = [0, 1, 0]" and l: "lag < length cc'"
      and m: "\<forall>j < length cc'. cc' ! j \<le> cc' ! lag"
      and o: "ok \<longleftrightarrow> int_le_float \<bar>int lag - a\<bar> (Finite ((2 ^ 53 - 1) / 2 ^ 53))"
      unfolding cc tol by auto
    from m[rule_format, of 1] c have "1 \<le> cc' ! lag" by simp
    moreover from l c have "lag = 0 \<or> lag = 1 \<or> lag = 2" by auto
    ultimately have "lag = 1" using c by auto
    moreover from f c have "tp' = [-1, 0, 1]"
      by (auto simp: find_delay_def bind_err_def Let_def upt_3 split: sum.splits)
    ultimately show ?thesis using f c o by simp
  qed
  have "int_le_float \<bar>1 - 1\<bar> (Finite ((2 ^ 53 - 1) / 2 ^ 53))" by (simp add: binary64_def)
  moreover have "\<not> int_le_float \<bar>1 - 3\<bar> (Finite ((2 ^ 53 - 1) / 2 ^ 53))"
    by (simp add: binary64_2)
  ultimately show ?thesis using run[of 1] run[of 3] cc by auto
qed

text \<open>
  Against the claim as stated: with a tolerance of 100 ppm on 10000 bins and a found
  delay one bin from the actual one, \<open>|foundDelay - actualDelay| = 1\<close> and
  \<open>|sync_error \<cdot> 1e-6 \<cdot> block_size| = 1\<close>, yet the flag is \<open>False\<close>: the float tolerance
  is \<open>1 - 2\<^sup>-\<^sup>5\<^sup>3\<close>.
\<close>

theorem find_delay_tolerance_is_rounded:
  "find_delay [1] [False, True, False] rounding_config 0 = Inr ([-1, 0, 1], [0, 1, 0], 1, False) \<and>
   \<bar>real_of_int (int 1 - 0)\<bar>
     \<le> \<bar>sync_error_ppm rounding_config * (1 / 10 ^ 6) * real_of_int (block_size rounding_config)\<bar> \<and>
   sync_tolerance rounding_config = Finite ((2 ^ 53 - 1) / 2 ^ 53)"
  by (simp add: find_delay_def correlate_def sliding_dots_def dot_def bind_err_def upt_3
      sync_tolerance_rounding_config binary64_1)
    (simp add: rounding_config_def test_sim_config_def)

text \<open>
  C7. When the detection sequence is at least as long as the indicator, every trace
  that find\_delay returns has length \<open>len(detections) - len(indicator) + 1\<close>, the time
  axis has the same length, and each entry is a dot product of the whole indicator with
  a window of the detections (full overlap, no padding). find\_delay returns whenever
  the indicator is not empty; on an empty indicator scipy yields an empty trace and
  \<^verbatim>\<open>np.argmax\<close> raises, so no trace is returned.
\<close>

theorem find_delay_trace_length:
  assumes "length intensity \<le> length detections"
  shows "(intensity \<noteq> [] \<longrightarrow> (\<exists>r. find_delay intensity detections config actual_delay = Inr r)) \<and>
         (\<forall>tp cc lag ok.
            find_delay intensity detections config actual_delay = Inr (tp, cc, lag, ok) \<longrightarrow>
              length cc = length detections - length intensity + 1 \<and>
              length tp = length cc \<and>
              (\<forall>k < length cc.
                 cc ! k = dot intensity
                            (drop (length detections - length intensity - k)
                               (map (\<lambda>b. if b then 1 else 0) detections))))"
proof (intro conjI impI allI)
  assume ne: "intensity \<noteq> []"
  with assms have "detections \<noteq> []" by auto
  from find_delay_returns[OF ne this]
  show "\<exists>r. find_delay intensity detections config actual_delay = Inr r" by blast
next
  fix tp cc lag ok
  assume fd: "find_delay intensity detections config actual_delay = Inr (tp, cc, lag, ok)"
  let ?d = "map (\<lambda>b. if b then 1 else 0) detections :: int list"
  let ?cc = "correlate intensity ?d"
  from fd obtain r where r: "np_argmax ?cc = Inr r" and cc: "cc = ?cc"
    and tp: "tp = map (\<lambda>i. int i - int (length ?cc div 2)) [0 ..< length ?cc]"
    by (auto simp: find_delay_def bind_err_def Let_def split: sum.splits)
  from r have "?cc \<noteq> []" by (cases ?cc) auto
  then have ne: "intensity \<noteq> []" "?d \<noteq> []" by (auto simp: correlate_def)
  have le: "length intensity \<le> length ?d" using assms by simp
  show "length cc = length detections - length intensity + 1"
    using length_correlate[OF ne le] cc by simp
  show "length tp = length cc" using tp cc by simp
  show "\<And>k. k < length cc \<Longrightarrow>
          cc ! k = dot intensity (drop (length detections - length intensity - k) ?d)"
  proof -
    fix k assume "k < length cc"
    then have "k < length ?d - length intensity + 1"
      using length_correlate[OF ne le] cc by simp
    from correlate_nth[OF ne(1) le this]
    show "cc ! k = dot intensity (drop (length detections - length intensity - k) ?d)"
      using cc by simp
  qed
qed

theorem find_delay_trace_length_witness:
  "length [1, 0 :: int] \<le> length [False, True, False, False] \<and>
   (\<exists>tp cc lag ok.
      find_delay [1, 0] [False, True, False, False] (test_sim_config (8/10) 2) 1
        = Inr (tp, cc, lag, ok) \<and> length cc = 3)"
proof -
  have le: "length [1, 0 :: int] \<le> length [False, True, False, False]" by simp
  note t = find_delay_trace_length[OF le, of "test_sim_config (8/10) 2" 1]
  from t obtain r where
    r: "find_delay [1, 0] [False, True, False, False] (test_sim_config (8/10) 2) 1 = Inr r"
    by blast
  obtain tp cc lag ok where r': "r = (tp, cc, lag, ok)" by (cases r) auto
  from t r r' have "length cc = 3" by simp
  with le r r' show ?thesis by blast
qed

text \<open>
  C10. find\_delay never reads \<open>max_offset\<close>: changing that field alone changes nothing
  in its result (time axis, trace, found delay, success flag), also when it raises. The
  found delay is not confined to \<open>[0, max_offset]\<close>: with \<open>max_offset = 1\<close> the
  one-pulse indicator against the detections (True, False, False) is found at 2.
\<close>

theorem find_delay_ignores_max_offset:
  "find_delay intensity detections (config\<lparr>max_offset := m\<rparr>) actual_delay
     = find_delay intensity detections config actual_delay \<and>
   find_delay [1] [True, False, False] ((test_sim_config (8/10) 1)\<lparr>max_offset := 1\<rparr>) 0
     = Inr ([-1, 0, 1], [0, 0, 1], 2, False)"
proof
  show "find_delay intensity detections (config\<lparr>max_offset := m\<rparr>) actual_delay
     = find_delay intensity detections config actual_delay"
    by (simp add: find_delay_def sync_tolerance_def)
  show "find_delay [1] [True, False, False] ((test_sim_config (8/10) 1)\<lparr>max_offset := 1\<rparr>) 0
     = Inr ([-1, 0, 1], [0, 0, 1], 2, False)"
    by (simp only: find_delay_def sync_tolerance_one_bin)
      (simp add: correlate_def sliding_dots_def dot_def bind_err_def upt_3 binary64_2)
qed

section \<open>The generator, sampling and the helper facts of the stages\<close>

lemma counter_gen_in_range: "randint_in_range counter_gen"
proof -
  have "lo \<le> lo + int s mod (hi - lo) \<and> lo + int s mod (hi - lo) < hi"
    if "lo < hi" for lo hi :: int and s :: nat
  proof -
    from that have "0 < hi - lo" by simp
    then have "0 \<le> int s mod (hi - lo)" "int s mod (hi - lo) < hi - lo"
      by (simp_all add: pos_mod_bound)
    then show ?thesis by linarith
  qed
  then show ?thesis by (simp add: randint_in_range_def counter_gen_def)
qed

lemma spec_valid_test: "0 \<le> p \<Longrightarrow> p \<le> 1 \<Longrightarrow> 0 < bs \<Longrightarrow> spec_valid (test_sim_config p bs)"
  by (simp add: spec_valid_def test_sim_config_def)

lemma np_choice_Inr_iff:
  "np_choice G a0 a1 p n s = Inr (xs, s') \<longleftrightarrow>
     0 \<le> p \<and> p \<le> 1 \<and> 0 \<le> n \<and>
     xs = map (\<lambda>u. choice_value a0 a1 (choice_index p u)) (fst (random_sample G (nat n) s)) \<and>
     s' = snd (random_sample G (nat n) s)"
  by (cases "random_sample G (nat n) s") (auto simp: np_choice_def)

lemma np_choice_length:
  "np_choice G a0 a1 p n s = Inr (xs, s') \<Longrightarrow> length xs = nat n \<and> 0 \<le> n"
  by (simp add: np_choice_Inr_iff random_sample_length)

lemma np_choice_values:
  "np_choice G a0 a1 p n s = Inr (xs, s') \<Longrightarrow> set xs \<subseteq> {a0, a1}"
  by (auto simp: np_choice_Inr_iff choice_value_def)

lemma np_choice_returns:
  "0 \<le> p \<Longrightarrow> p \<le> 1 \<Longrightarrow> 0 \<le> n \<Longrightarrow> \<exists>xs s'. np_choice G a0 a1 p n s = Inr (xs, s')"
  by (simp add: np_choice_Inr_iff)

lemma generate_states_Inr_iff:
  "generate_states G config s = Inr ((states, intensity), s') \<longleftrightarrow>
     np_choice G (signal_power config) (decoy_power config) (signal_prob config)
       (block_size config) s = Inr (states, s') \<and>
     intensity = map (\<lambda>x. if x = signal_power config then 1 else 0) states"
  by (auto simp: generate_states_def bind_err_def split: sum.splits)

lemma apply_channel_effects_Inr_iff:
  "apply_channel_effects G states config delay s = Inr ((det, d), s') \<longleftrightarrow>
     (\<exists>s0 front_pad s1 end_pad s2.
        choose_delay G config delay s = (d, s0) \<and>
        np_choice G (signal_power config) (decoy_power config) (signal_prob config) d s0
          = Inr (front_pad, s1) \<and>
        np_choice G (signal_power config) (decoy_power config) (signal_prob config) d s1
          = Inr (end_pad, s2) \<and>
        det = map2 (\<lambda>u q. u < q)
                (fst (random_sample G (length (front_pad @ states @ end_pad)) s2))
                (detection_prob config (front_pad @ states @ end_pad)) \<and>
        s' = snd (random_sample G (length (front_pad @ states @ end_pad)) s2))"
  by (auto simp: apply_channel_effects_def bind_err_def Let_def detection_prob_def
      split: sum.splits prod.splits)

lemma choose_delay_nonneg:
  assumes "randint_in_range G" "0 \<le> max_offset config"
    "case delay of None \<Rightarrow> True | Some d0 \<Rightarrow> 0 \<le> d0"
  shows "0 \<le> fst (choose_delay G config delay s)"
proof (cases delay)
  case None
  obtain r s0 where n: "next_int G 0 1001 s = (r, s0)" by (cases "next_int G 0 1001 s")
  from assms(1) have "0 \<le> fst (next_int G 0 1001 s)" by (simp add: randint_in_range_def)
  with n have "0 \<le> r" by simp
  with None assms(2) n show ?thesis
    by (simp add: choose_delay_def)
next
  case (Some d0)
  with assms(3) show ?thesis by (simp add: choose_delay_def)
qed

lemma apply_channel_effects_returns:
  assumes "0 \<le> signal_prob config" "signal_prob config \<le> 1"
    "0 \<le> fst (choose_delay G config delay s)"
  shows "\<exists>det d s'. apply_channel_effects G states config delay s = Inr ((det, d), s')"
proof -
  obtain d s0 where cd: "choose_delay G config delay s = (d, s0)"
    by (cases "choose_delay G config delay s")
  with assms(3) have d: "0 \<le> d" by simp
  from np_choice_returns[OF assms(1,2) d, of G "signal_power config" "decoy_power config" s0]
  obtain front_pad s1 where
    f: "np_choice G (signal_power config) (decoy_power config) (signal_prob config) d s0
          = Inr (front_pad, s1)" by blast
  from np_choice_returns[OF assms(1,2) d, of G "signal_power config" "decoy_power config" s1]
  obtain end_pad s2 where
    e: "np_choice G (signal_power config) (decoy_power config) (signal_prob config) d s1
          = Inr (end_pad, s2)" by blast
  from cd f e show ?thesis
    by (simp add: apply_channel_effects_Inr_iff)
qed

lemma apply_channel_effects_length_aux:
  assumes "apply_channel_effects G states config delay s = Inr ((det, d), s')"
  shows "0 \<le> d \<and> int (length det) = int (length states) + 2 * d"
proof -
  from assms obtain s0 front_pad s1 end_pad s2 where
    f: "np_choice G (signal_power config) (decoy_power config) (signal_prob config) d s0
          = Inr (front_pad, s1)" and
    e: "np_choice G (signal_power config) (decoy_power config) (signal_prob config) d s1
          = Inr (end_pad, s2)" and
    det: "det = map2 (\<lambda>u q. u < q)
                (fst (random_sample G (length (front_pad @ states @ end_pad)) s2))
                (detection_prob config (front_pad @ states @ end_pad))"
    unfolding apply_channel_effects_Inr_iff by blast
  from np_choice_length[OF f] np_choice_length[OF e]
  have l: "length front_pad = nat d" "length end_pad = nat d" "0 \<le> d" by auto
  have "length det = length (front_pad @ states @ end_pad)"
    by (simp add: det random_sample_length detection_prob_def)
  with l show ?thesis by simp
qed

lemma choose_delay_value:
  "fst (choose_delay G config delay s)
     = (case delay of None \<Rightarrow> max_offset config + fst (next_int G 0 1001 s) | Some d0 \<Rightarrow> d0)"
  by (cases delay) (auto simp: choose_delay_def split: prod.splits)


section \<open>Statistics\<close>

text \<open>
  C2. The claim: qber is \<open>(dark_count_rate \<cdot> time_bin_in_seconds) / (totalCounts / len(detections))\<close>
  when totalCounts is positive, and an explicit "undefined" value when totalCounts is 0,
  never NaN or an infinity. The source divides without a guard, and numpy's division does
  not raise: two bins without a detection, on the test suite's configuration, give
  qber = +infinity, and with a dark count rate of 0 they give NaN. The test suite expects
  \<^verbatim>\<open>0 <= qber_estimate <= 1\<close>.
\<close>

theorem calculate_statistics_no_sentinel:
  "calculate_statistics [False, False] (test_sim_config (8/10) 2) = (0, Finite 0, PosInf) \<and>
   calculate_statistics [False, False] ((test_sim_config (8/10) 2)\<lparr>dark_count_rate := 0\<rparr>)
     = (0, Finite 0, NaN)"
  by (simp add: calculate_statistics_def test_sim_config_def)

section \<open>State generation\<close>

text \<open>
  C3. The claim: the indicator is the Bernoulli outcome of each draw, also when
  \<open>signal_power = decoy_power\<close>, and is not obtained by comparing the sampled values with
  \<open>signal_power\<close>. The source computes it by exactly that comparison. For a configuration
  within the bounds, generate\_states returns \<open>block_size\<close> pulses, the indicator is 1
  exactly where the pulse equals \<open>signal_power\<close>; this is the Bernoulli outcome of the draw
  when the two powers differ, and the constant 1 when they coincide. The amended
  statement:
\<close>

theorem generate_states_indicator:
  assumes "spec_valid config"
  shows "\<exists>states intensity s'.
      generate_states G config s = Inr ((states, intensity), s') \<and>
      length states = nat (block_size config) \<and>
      states = map (\<lambda>u. choice_value (signal_power config) (decoy_power config)
                           (choice_index (signal_prob config) u))
                 (fst (random_sample G (nat (block_size config)) s)) \<and>
      intensity = map (\<lambda>x. if x = signal_power config then 1 else 0) states \<and>
      (signal_power config \<noteq> decoy_power config \<longrightarrow>
         intensity = map (\<lambda>u. if choice_index (signal_prob config) u = 0 then 1 else 0)
                       (fst (random_sample G (nat (block_size config)) s))) \<and>
      (signal_power config = decoy_power config \<longrightarrow>
         intensity = replicate (nat (block_size config)) 1)"
proof -
  let ?us = "fst (random_sample G (nat (block_size config)) s)"
  let ?states = "map (\<lambda>u. choice_value (signal_power config) (decoy_power config)
                           (choice_index (signal_prob config) u)) ?us"
  let ?int = "map (\<lambda>x. if x = signal_power config then 1 else 0) ?states :: int list"
  from assms have v: "0 \<le> signal_prob config" "signal_prob config \<le> 1" "0 \<le> block_size config"
    by (simp_all add: spec_valid_def)
  have g: "generate_states G config s
             = Inr ((?states, ?int), snd (random_sample G (nat (block_size config)) s))"
    using v by (simp add: generate_states_Inr_iff np_choice_Inr_iff)
  have l: "length ?states = nat (block_size config)" by (simp add: random_sample_length)
  have a: "signal_power config \<noteq> decoy_power config \<Longrightarrow>
         ?int = map (\<lambda>u. if choice_index (signal_prob config) u = 0 then 1 else 0) ?us"
    by (simp add: choice_value_def)
  have "signal_power config = decoy_power config \<Longrightarrow> ?int = map (\<lambda>u. 1) ?us"
    by (simp add: choice_value_def)
  then have b: "signal_power config = decoy_power config \<Longrightarrow>
         ?int = replicate (nat (block_size config)) 1"
    by (simp add: map_replicate_const random_sample_length)
  from g l a b show ?thesis by blast
qed

theorem generate_states_indicator_witness:
  "spec_valid (test_sim_config (1/2) 2) \<and>
   (\<exists>states s'. generate_states counter_gen (test_sim_config (1/2) 2) 2
        = Inr ((states, map (\<lambda>u. if choice_index (1/2) u = 0 then 1 else 0)
                          (fst (random_sample counter_gen 2 2))), s'))"
proof -
  have v: "spec_valid (test_sim_config (1/2) 2)" by (simp add: spec_valid_test)
  have ne: "signal_power (test_sim_config (1/2) 2) \<noteq> decoy_power (test_sim_config (1/2) 2)"
    by (simp add: test_sim_config_def)
  have p: "signal_prob (test_sim_config (1/2) 2) = 1/2" "nat (block_size (test_sim_config (1/2) 2)) = 2"
    by (simp_all add: test_sim_config_def)
  from generate_states_indicator[OF v, of counter_gen 2] ne p v show ?thesis
    by auto
qed

lemma rs22: "random_sample counter_gen 2 2 = ([1/2, 3/4], 4)"
  by (simp add: counter_gen_def numeral_2_eq_2)

text \<open>
  Against the claim as stated: with equal powers and two draws that both select the
  decoy (index 1), the indicator is (1, 1).
\<close>

theorem generate_states_equal_powers:
  "spec_valid equal_power_config \<and>
   signal_power equal_power_config = decoy_power equal_power_config \<and>
   random_sample counter_gen 2 2 = ([1/2, 3/4], 4) \<and>
   map (choice_index (signal_prob equal_power_config)) [1/2, 3/4] = [1, 1] \<and>
   generate_states counter_gen equal_power_config 2 = Inr (([1/10, 1/10], [1, 1]), 4)"
  by (simp add: rs22 spec_valid_def equal_power_config_def choice_index_def choice_value_def
      generate_states_def np_choice_def bind_err_def)

section \<open>Channel effects\<close>

text \<open>
  C6. For a configuration within the bounds and \<open>block_size\<close> pulses,
  apply\_channel\_effects returns whenever the delay is drawn (\<open>None\<close>) or injected and
  not negative (numpy rejects a negative size), and every result it returns has
  \<open>block_size + 2 \<cdot> delay\<close> detections, where \<open>delay\<close> is the returned delay: the injected
  one, or \<open>max_offset\<close> plus the drawn integer. Both pads are \<open>delay\<close> pulses drawn by
  \<^verbatim>\<open>np.random.choice\<close> from the generator, the front pad first, with the distribution of
  the block.
\<close>

theorem apply_channel_effects_length:
  assumes "spec_valid config" and "int (length states) = block_size config"
    and "randint_in_range G"
  shows "((case delay of None \<Rightarrow> True | Some d0 \<Rightarrow> 0 \<le> d0) \<longrightarrow>
            (\<exists>r. apply_channel_effects G states config delay s = Inr r)) \<and>
         (\<forall>det d s'.
            apply_channel_effects G states config delay s = Inr ((det, d), s') \<longrightarrow>
              int (length det) = block_size config + 2 * d \<and>
              d = (case delay of None \<Rightarrow> max_offset config + fst (next_int G 0 1001 s)
                               | Some d0 \<Rightarrow> d0) \<and>
              (\<exists>s0 front_pad s1 end_pad s2.
                 np_choice G (signal_power config) (decoy_power config) (signal_prob config) d s0
                   = Inr (front_pad, s1) \<and>
                 np_choice G (signal_power config) (decoy_power config) (signal_prob config) d s1
                   = Inr (end_pad, s2) \<and>
                 int (length front_pad) = d \<and> int (length end_pad) = d \<and>
                 set front_pad \<subseteq> {signal_power config, decoy_power config} \<and>
                 set end_pad \<subseteq> {signal_power config, decoy_power config} \<and>
                 det = map2 (\<lambda>u q. u < q)
                         (fst (random_sample G (length (front_pad @ states @ end_pad)) s2))
                         (detection_prob config (front_pad @ states @ end_pad))))"
proof (intro conjI impI allI)
  assume ok: "case delay of None \<Rightarrow> True | Some d0 \<Rightarrow> 0 \<le> d0"
  from assms(1) have v: "0 \<le> signal_prob config" "signal_prob config \<le> 1" "0 \<le> max_offset config"
    by (simp_all add: spec_valid_def)
  from choose_delay_nonneg[OF assms(3) v(3) ok]
  have "0 \<le> fst (choose_delay G config delay s)" .
  from apply_channel_effects_returns[OF v(1,2) this]
  show "\<exists>r. apply_channel_effects G states config delay s = Inr r" by blast
next
  fix det d s'
  assume a: "apply_channel_effects G states config delay s = Inr ((det, d), s')"
  from apply_channel_effects_length_aux[OF a] assms(2)
  show "int (length det) = block_size config + 2 * d" by simp
  from a obtain s0 front_pad s1 end_pad s2 where
    cd: "choose_delay G config delay s = (d, s0)" and
    f: "np_choice G (signal_power config) (decoy_power config) (signal_prob config) d s0
          = Inr (front_pad, s1)" and
    e: "np_choice G (signal_power config) (decoy_power config) (signal_prob config) d s1
          = Inr (end_pad, s2)" and
    det: "det = map2 (\<lambda>u q. u < q)
                (fst (random_sample G (length (front_pad @ states @ end_pad)) s2))
                (detection_prob config (front_pad @ states @ end_pad))"
    unfolding apply_channel_effects_Inr_iff by blast
  from cd choose_delay_value[of G config delay s]
  show "d = (case delay of None \<Rightarrow> max_offset config + fst (next_int G 0 1001 s)
                               | Some d0 \<Rightarrow> d0)" by simp
  from np_choice_length[OF f] np_choice_length[OF e]
  have l: "int (length front_pad) = d" "int (length end_pad) = d" by auto
  from f e l np_choice_values[OF f] np_choice_values[OF e] det
  show "\<exists>s0 front_pad s1 end_pad s2.
                 np_choice G (signal_power config) (decoy_power config) (signal_prob config) d s0
                   = Inr (front_pad, s1) \<and>
                 np_choice G (signal_power config) (decoy_power config) (signal_prob config) d s1
                   = Inr (end_pad, s2) \<and>
                 int (length front_pad) = d \<and> int (length end_pad) = d \<and>
                 set front_pad \<subseteq> {signal_power config, decoy_power config} \<and>
                 set end_pad \<subseteq> {signal_power config, decoy_power config} \<and>
                 det = map2 (\<lambda>u q. u < q)
                         (fst (random_sample G (length (front_pad @ states @ end_pad)) s2))
                         (detection_prob config (front_pad @ states @ end_pad))"
    by blast
qed

theorem apply_channel_effects_length_witness:
  "spec_valid (test_sim_config (8/10) 2) \<and>
   int (length [1/10, 5/100 :: real]) = block_size (test_sim_config (8/10) 2) \<and>
   randint_in_range counter_gen \<and>
   (\<exists>det d s'. apply_channel_effects counter_gen [1/10, 5/100] (test_sim_config (8/10) 2)
                  (Some 3) 0 = Inr ((det, d), s') \<and> d = 3 \<and> length det = 8)"
proof -
  have v: "spec_valid (test_sim_config (8/10) 2)" by (simp add: spec_valid_test)
  have l: "int (length [1/10, 5/100 :: real]) = block_size (test_sim_config (8/10) 2)"
    by (simp add: test_sim_config_def)
  note t = apply_channel_effects_length[OF v l counter_gen_in_range, of "Some 3" 0]
  from t obtain r where
    r: "apply_channel_effects counter_gen [1/10, 5/100] (test_sim_config (8/10) 2) (Some 3) 0 = Inr r"
    by auto
  obtain det d s' where r': "r = ((det, d), s')" by (cases r) auto
  from t r r' have "int (length det) = block_size (test_sim_config (8/10) 2) + 2 * d" "d = 3"
    by auto
  then have "d = 3" "length det = 8" by (simp_all add: test_sim_config_def)
  with v l counter_gen_in_range r r' show ?thesis by blast
qed

lemma detection_prob_formula:
  "detection_prob config xs =
     map (\<lambda>x. 1 - exp (- x * 10 powr (channel_loss_db config / 10))
              + (1 - exp (- dark_count_rate config * time_bin config * (1 / 10 ^ 12)))) xs"
  by (simp add: detection_prob_def attenuation_def P_dark_def)

lemma exp_minus_2_bound: "exp (- 2 :: real) \<le> 1 / 5"
proof -
  have "1 + 2 + 2\<^sup>2 / 2 \<le> exp (2 :: real)" by (rule exp_lower_Taylor_quadratic) simp
  then have "5 \<le> exp (2::real)" by simp
  then have "1 / exp (2::real) \<le> 1 / 5" by (simp add: field_simps)
  then show ?thesis by (simp add: exp_minus inverse_eq_divide)
qed

lemma hot_config_prob:
  "spec_valid hot_config \<and> (\<exists>q. detection_prob hot_config [2] = [q] \<and> 1 < q)"
proof -
  have "detection_prob hot_config [2] = [1 - exp (- 2) + (1 - exp (- 2))]"
    by (simp add: detection_prob_formula hot_config_def)
  moreover have "1 < 1 - exp (- 2 :: real) + (1 - exp (- 2))"
    using exp_minus_2_bound by simp
  moreover have "spec_valid hot_config" by (simp add: spec_valid_def hot_config_def)
  ultimately show ?thesis by blast
qed

text \<open>
  With a probability above 1 the bin is a detection even for a sample equal to 1, the
  bound that the samples stay below: the comparison is against the unclamped value.
\<close>

lemma hot_config_detects:
  assumes "fst (next_double G s) \<le> 1"
  shows "apply_channel_effects G [2] hot_config (Some 0) s
           = Inr (([True], 0), snd (next_double G s))"
proof -
  obtain u s' where n: "next_double G s = (u, s')" by (cases "next_double G s")
  with assms have u: "u \<le> 1" by simp
  have q: "detection_prob hot_config [2] = [1 - exp (- 2) + (1 - exp (- 2))]"
    by (simp add: detection_prob_formula hot_config_def)
  have "u < 1 - exp (- 2 :: real) + (1 - exp (- 2))"
    using exp_minus_2_bound u by simp
  then have "apply_channel_effects G [2] hot_config (Some 0) s = Inr (([True], 0), s')"
    unfolding apply_channel_effects_Inr_iff
    by (simp add: choose_delay_def np_choice_Inr_iff q n) (simp add: hot_config_def)
  with n show ?thesis by simp
qed

lemma map2_map_right: "map2 f xs (map g ys) = map2 (\<lambda>x y. f x (g y)) xs ys"
  by (simp add: zip_map2 case_prod_unfold)

text \<open>
  C5. Every result of apply\_channel\_effects is pinned bin by bin: with the delay and the
  two pads drawn as the code draws them, and one uniform sample per bin of the padded
  sequence drawn after them, bin \<open>i\<close> is a detection exactly when its sample is below
  \<open>1 - exp(-pulse\<^sub>i \<cdot> 10^(channel_loss_db/10)) + (1 - exp(-dark_count_rate \<cdot> time_bin \<cdot> 1e-12))\<close>;
  \<open>detection_prob\<close> is that value for every pulse. It is not clamped: for \<open>hot_config\<close>,
  which is within the bounds, it exceeds 1, and the bin is then a detection whatever the
  sample, up to a sample of 1 itself. For a configuration within the bounds, with a loss
  for which \<^verbatim>\<open>10 ** (loss/10)\<close> is a float, apply\_channel\_effects returns.
\<close>

theorem apply_channel_effects_detection_prob:
  assumes "spec_valid config" and "randint_in_range G" and "channel_loss_db config \<le> 3000"
  shows "(\<exists>r. apply_channel_effects G states config None s = Inr r) \<and>
         (\<forall>delay det d s'.
            apply_channel_effects G states config delay s = Inr ((det, d), s') \<longrightarrow>
              (\<exists>s0 front_pad s1 end_pad s2.
                 choose_delay G config delay s = (d, s0) \<and>
                 np_choice G (signal_power config) (decoy_power config) (signal_prob config) d s0
                   = Inr (front_pad, s1) \<and>
                 np_choice G (signal_power config) (decoy_power config) (signal_prob config) d s1
                   = Inr (end_pad, s2) \<and>
                 det = map2 (\<lambda>u x. u < 1 - exp (- x * 10 powr (channel_loss_db config / 10))
                                        + (1 - exp (- dark_count_rate config * time_bin config
                                                      * (1 / 10 ^ 12))))
                         (fst (random_sample G (length (front_pad @ states @ end_pad)) s2))
                         (front_pad @ states @ end_pad) \<and>
                 s' = snd (random_sample G (length (front_pad @ states @ end_pad)) s2))) \<and>
         (\<forall>xs. detection_prob config xs
                 = map (\<lambda>x. 1 - exp (- x * 10 powr (channel_loss_db config / 10))
                            + (1 - exp (- dark_count_rate config * time_bin config
                                          * (1 / 10 ^ 12)))) xs) \<and>
         spec_valid hot_config \<and> (\<exists>q. detection_prob hot_config [2] = [q] \<and> 1 < q) \<and>
         (fst (next_double G s) \<le> 1 \<longrightarrow>
            apply_channel_effects G [2] hot_config (Some 0) s
              = Inr (([True], 0), snd (next_double G s)))"
proof (intro conjI allI impI)
  from assms(1) have v: "0 \<le> signal_prob config" "signal_prob config \<le> 1" "0 \<le> max_offset config"
    by (simp_all add: spec_valid_def)
  have "0 \<le> fst (choose_delay G config None s)"
    by (rule choose_delay_nonneg[OF assms(2) v(3)]) simp
  from apply_channel_effects_returns[OF v(1,2) this]
  show "\<exists>r. apply_channel_effects G states config None s = Inr r" by blast
next
  fix delay det d s'
  assume "apply_channel_effects G states config delay s = Inr ((det, d), s')"
  then show "\<exists>s0 front_pad s1 end_pad s2.
                 choose_delay G config delay s = (d, s0) \<and>
                 np_choice G (signal_power config) (decoy_power config) (signal_prob config) d s0
                   = Inr (front_pad, s1) \<and>
                 np_choice G (signal_power config) (decoy_power config) (signal_prob config) d s1
                   = Inr (end_pad, s2) \<and>
                 det = map2 (\<lambda>u x. u < 1 - exp (- x * 10 powr (channel_loss_db config / 10))
                                        + (1 - exp (- dark_count_rate config * time_bin config
                                                      * (1 / 10 ^ 12))))
                         (fst (random_sample G (length (front_pad @ states @ end_pad)) s2))
                         (front_pad @ states @ end_pad) \<and>
                 s' = snd (random_sample G (length (front_pad @ states @ end_pad)) s2)"
    unfolding apply_channel_effects_Inr_iff detection_prob_formula map2_map_right .
next
  fix xs
  show "detection_prob config xs
                 = map (\<lambda>x. 1 - exp (- x * 10 powr (channel_loss_db config / 10))
                            + (1 - exp (- dark_count_rate config * time_bin config
                                          * (1 / 10 ^ 12)))) xs"
    by (rule detection_prob_formula)
next
  show "spec_valid hot_config" using hot_config_prob by blast
  show "\<exists>q. detection_prob hot_config [2] = [q] \<and> 1 < q" using hot_config_prob by blast
next
  assume "fst (next_double G s) \<le> 1"
  then show "apply_channel_effects G [2] hot_config (Some 0) s
              = Inr (([True], 0), snd (next_double G s))"
    by (rule hot_config_detects)
qed

lemma random_sample_counter_gen_4: "random_sample counter_gen 4 2 = ([1/2, 3/4, 0, 1/4], 6)"
proof -
  have "random_sample counter_gen (Suc (Suc (Suc (Suc 0)))) 2 = ([1/2, 3/4, 0, 1/4], 6)"
    by (simp add: counter_gen_def)
  moreover have "Suc (Suc (Suc (Suc 0))) = 4" by simp
  ultimately show ?thesis by (simp only:)
qed

lemma random_sample_counter_gen_1:
  "random_sample counter_gen (Suc 0) s = ([real (s mod 4) / 4], Suc s)"
  by (simp add: counter_gen_def)

text \<open>
  A run of the channel on \<open>dark_free_config\<close>: one pad pulse on each side of the block
  (2, 0), both drawn as signal; the dark decoy bin is no detection, the three others are.
\<close>

theorem apply_channel_effects_detection_prob_witness:
  "spec_valid dark_free_config \<and> randint_in_range counter_gen \<and>
   channel_loss_db dark_free_config \<le> 3000 \<and>
   apply_channel_effects counter_gen [2, 0] dark_free_config (Some 1) 0
     = Inr (([True, True, False, True], 1), 6)"
proof -
  have v: "spec_valid dark_free_config" by (simp add: spec_valid_def dark_free_config_def)
  have l: "channel_loss_db dark_free_config \<le> 3000" by (simp add: dark_free_config_def)
  note t = apply_channel_effects_detection_prob[OF v counter_gen_in_range l, of "[2, 0]" 0]
  have "0 \<le> fst (choose_delay counter_gen dark_free_config (Some 1) 0)"
    by (simp add: choose_delay_def)
  from apply_channel_effects_returns[OF _ _ this, of "[2, 0]"] obtain det d s' where
    r: "apply_channel_effects counter_gen [2, 0] dark_free_config (Some 1) 0 = Inr ((det, d), s')"
    by (auto simp: dark_free_config_def)
  from t r obtain s0 front_pad s1 end_pad s2 where
    cd: "choose_delay counter_gen dark_free_config (Some 1) 0 = (d, s0)" and
    f: "np_choice counter_gen (signal_power dark_free_config) (decoy_power dark_free_config)
          (signal_prob dark_free_config) d s0 = Inr (front_pad, s1)" and
    e: "np_choice counter_gen (signal_power dark_free_config) (decoy_power dark_free_config)
          (signal_prob dark_free_config) d s1 = Inr (end_pad, s2)" and
    det: "det = map2 (\<lambda>u x. u < 1 - exp (- x * 10 powr (channel_loss_db dark_free_config / 10))
                          + (1 - exp (- dark_count_rate dark_free_config
                                        * time_bin dark_free_config * (1 / 10 ^ 12))))
                  (fst (random_sample counter_gen (length (front_pad @ [2, 0] @ end_pad)) s2))
                  (front_pad @ [2, 0] @ end_pad)" and
    s': "s' = snd (random_sample counter_gen (length (front_pad @ [2, 0] @ end_pad)) s2)"
    by blast
  from cd have d: "d = 1" "s0 = 0" by (simp_all add: choose_delay_def)
  from f have fp: "front_pad = [2]" "s1 = 1"
    by (simp_all add: d np_choice_Inr_iff counter_gen_def dark_free_config_def
        choice_index_def choice_value_def)
  from e have ep: "end_pad = [2]" "s2 = 2"
    by (simp_all add: d fp np_choice_Inr_iff counter_gen_def dark_free_config_def
        choice_index_def choice_value_def)
  have q: "3 / 4 < 1 - exp (- 2 :: real)" using exp_minus_2_bound by simp
  have len: "length ([2] @ [2, 0] @ [2 :: real]) = 4" by simp
  have "det = map2 (\<lambda>u x. u < 1 - exp (- x * 10 powr (channel_loss_db dark_free_config / 10))
                          + (1 - exp (- dark_count_rate dark_free_config
                                        * time_bin dark_free_config * (1 / 10 ^ 12))))
                  [1/2, 3/4, 0, 1/4] [2, 2, 0, 2]"
    unfolding det fp ep len random_sample_counter_gen_4
    by (simp only: fst_conv append_Cons append_Nil)
  with q have "det = [True, True, False, True]"
    by (simp add: dark_free_config_def)
  moreover have "s' = 6" unfolding s' fp ep len random_sample_counter_gen_4 by simp
  ultimately have "apply_channel_effects counter_gen [2, 0] dark_free_config (Some 1) 0
     = Inr (([True, True, False, True], 1), 6)" using r d by simp
  with v l counter_gen_in_range show ?thesis by blast
qed


section \<open>The whole run\<close>







lemma find_delay_empty: "find_delay [] detections config d = Inl ValueError_argmax_empty"
  by (simp add: find_delay_def correlate_def bind_err_def)

text \<open>
  C8. The claim: run fails only in validation. validate\_config accepts the test suite's
  configuration with \<^verbatim>\<open>p1 = 1.5\<close>, and then \<^verbatim>\<open>np.random.choice\<close> raises in
  generate\_states; it accepts \<^verbatim>\<open>blockSize = 0\<close>, and then run raises after validation
  too: in \<^verbatim>\<open>np.argmax\<close> on the empty correlation trace, or before that in the padding
  when the drawn delay is negative.
\<close>

theorem run_raises_after_validation:
  "validate_config B (test_config (15/10) 1000) = Inr (test_sim_config (15/10) 1000) \<and>
   run B G (test_config (15/10) 1000) s = Inl ValueError_probabilities \<and>
   validate_config B (test_config (8/10) 0) = Inr (test_sim_config (8/10) 0) \<and>
   (run B G (test_config (8/10) 0) s = Inl ValueError_negative_dimensions \<or>
    run B G (test_config (8/10) 0) s = Inl ValueError_argmax_empty)"
proof -
  have r1: "run B G (test_config (15/10) 1000) s = Inl ValueError_probabilities"
    by (simp add: run_def validate_test_config bind_err_def generate_states_def np_choice_def
        test_sim_config_def)
  have g: "generate_states G (test_sim_config p 0) s = Inr (([], []), s)"
    if "0 \<le> p" "p \<le> 1" for p
    using that by (simp add: generate_states_def np_choice_def bind_err_def test_sim_config_def)
  have r2: "run B G (test_config (8/10) 0) s = Inl ValueError_negative_dimensions \<or>
    run B G (test_config (8/10) 0) s = Inl ValueError_argmax_empty"
  proof (cases "apply_channel_effects G [] (test_sim_config (8/10) 0) None s")
    case (Inl e)
    then have "e = ValueError_negative_dimensions"
      by (auto simp: apply_channel_effects_def np_choice_def bind_err_def test_sim_config_def
          Let_def split: prod.splits if_splits sum.splits)
    with Inl show ?thesis
      by (simp add: run_def validate_test_config g bind_err_def)
  next
    case (Inr r)
    obtain det d s2 where "r = ((det, d), s2)" by (cases r) auto
    with Inr show ?thesis
      by (simp add: run_def validate_test_config g bind_err_def find_delay_empty)
  qed
  from r1 r2 show ?thesis by (simp add: validate_test_config)
qed


end
